theory Spec2Isabelle
  imports Main "HOL-Library.Multiset" "HOL-Library.AList"
begin

section \<open>Samples and the delta codec\<close>

text \<open>
  A sample is the object \<^verbatim>\<open>{ epoch, volume }\<close> that both branches of
  \<^verbatim>\<open>getEncodedBlocks\<close> build (explorer.js, lines 150-153 and 245-248).
\<close>

record sample =
  epoch :: int
  volume :: int

text \<open>
  \<^verbatim>\<open>applyDeltaEncoding\<close> and \<^verbatim>\<open>decodeDeltaEncoding\<close> are imported from
  \<^verbatim>\<open>../utils/encoding\<close> (explorer.js, line 42); that module is not part of the
  available sources. The codec below follows the specification, section 4.1: the first
  sample is kept as an absolute base pair, every later sample as the signed pair of
  differences to its predecessor, and the series declares how many samples it holds.
\<close>

record EncodedSeries =
  base :: "sample option"
  deltas :: "(int \<times> int) list"
  declared_length :: nat

datatype codec_error = MalformedSeries

text \<open>Modelled from the spec: the deltas of the samples after the first one
  (\<open>\<Delta>epoch = epoch[i] - epoch[i-1]\<close>, \<open>\<Delta>volume = volume[i] - volume[i-1]\<close>).\<close>

fun deltas_from :: "sample \<Rightarrow> sample list \<Rightarrow> (int \<times> int) list" where
  "deltas_from prev [] = []"
| "deltas_from prev (s # ss) =
     (epoch s - epoch prev, volume s - volume prev) # deltas_from s ss"

text \<open>Modelled from the spec: \<^verbatim>\<open>encode\<close> of section 4.1, the missing
  \<^verbatim>\<open>applyDeltaEncoding\<close> of \<^verbatim>\<open>utils/encoding\<close>. The empty sequence gives the
  degenerate series without a base.\<close>

fun applyDeltaEncoding :: "sample list \<Rightarrow> EncodedSeries" where
  "applyDeltaEncoding [] = \<lparr>base = None, deltas = [], declared_length = 0\<rparr>"
| "applyDeltaEncoding (s # ss) =
     \<lparr>base = Some s, deltas = deltas_from s ss, declared_length = Suc (length ss)\<rparr>"

text \<open>Modelled from the spec: accumulation of the deltas onto the preceding absolute
  value, the loop of the missing \<^verbatim>\<open>decodeDeltaEncoding\<close>.\<close>

fun accumulate :: "sample \<Rightarrow> (int \<times> int) list \<Rightarrow> sample list" where
  "accumulate prev [] = []"
| "accumulate prev (d # ds) =
     (let s = \<lparr>epoch = epoch prev + fst d, volume = volume prev + snd d\<rparr>
      in s # accumulate s ds)"

text \<open>Modelled from the spec: \<^verbatim>\<open>decode\<close> of section 4.1, the missing
  \<^verbatim>\<open>decodeDeltaEncoding\<close> of \<^verbatim>\<open>utils/encoding\<close>. It fails with
  \<open>MalformedSeries\<close> when the number of deltas does not match the declared length.\<close>

definition decodeDeltaEncoding :: "EncodedSeries \<Rightarrow> codec_error + sample list" where
  "decodeDeltaEncoding series =
     (case base series of
        None \<Rightarrow>
          if declared_length series = 0 \<and> deltas series = [] then Inr []
          else Inl MalformedSeries
      | Some b \<Rightarrow>
          if Suc (length (deltas series)) \<noteq> declared_length series then Inl MalformedSeries
          else Inr (b # accumulate b (deltas series)))"

section \<open>JavaScript values, numbers and exceptions\<close>

text \<open>
  The values that travel in a response body. An object is the list of its own
  properties in insertion order; numbers are integers, which is what the handler
  produces (\<^verbatim>\<open>parseInt\<close> results, epochs, counts). Integers beyond the exactly
  representable range of a double are outside this model.
\<close>

datatype jsval =
    JUndefined
  | JNull
  | JBool bool
  | JNum int
  | JStr string
  | JArr "jsval list"
  | JObj "(string \<times> jsval) list"

text \<open>A thrown value: an \<^verbatim>\<open>Error\<close> with its message (storage and network errors, and
  whatever the imported helpers throw), or the \<^verbatim>\<open>TypeError\<close> of the runtime.\<close>

datatype exn = Error string | TypeError string

fun message :: "exn \<Rightarrow> string" where
  "message (Error m) = m"
| "message (TypeError m) = m"

text \<open>
  Decimal rendering of a number inside a template literal. The plain decimal below is
  what \<^verbatim>\<open>${start}\<close> prints for the integers up to \<^verbatim>\<open>Number.MAX_SAFE_INTEGER\<close> in
  magnitude, each of which is a number of its own; from \<open>10\<^sup>2\<^sup>1\<close> on the runtime prints
  an exponent form, and between the two it prints the shortest digits that denote the
  number, neither of which is modelled.
\<close>

fun show_nat :: "nat \<Rightarrow> string" where
  "show_nat n =
     (if n < 10 then [''0123456789'' ! n]
      else show_nat (n div 10) @ [''0123456789'' ! (n mod 10)])"

declare show_nat.simps [simp del]

definition show_int :: "int \<Rightarrow> string" where
  "show_int i = (if i < 0 then CHR ''-'' # show_nat (nat (- i)) else show_nat (nat i))"

text \<open>A \<^verbatim>\<open>parseInt\<close> result is \<open>None\<close> for \<^verbatim>\<open>NaN\<close>, so \<^verbatim>\<open>!isNaN(x)\<close> is
  \<open>x \<noteq> None\<close>; inside a template literal \<^verbatim>\<open>NaN\<close> prints as its name.\<close>

definition show_number :: "int option \<Rightarrow> string" where
  "show_number x = (case x of None \<Rightarrow> ''NaN'' | Some i \<Rightarrow> show_int i)"

text \<open>The white space \<^verbatim>\<open>parseInt\<close> skips, as far as it lies in ASCII (tab, line feed,
  vertical tab, form feed, carriage return, space), the decimal digits and their value.\<close>

definition is_ws :: "char \<Rightarrow> bool" where
  "is_ws c = (c \<in> set [CHR 0x09, CHR 0x0A, CHR 0x0B, CHR 0x0C, CHR 0x0D, CHR '' ''])"

definition is_digit :: "char \<Rightarrow> bool" where
  "is_digit c = (c \<in> set ''0123456789'')"

definition digits_val :: "string \<Rightarrow> int" where
  "digits_val ds = foldl (\<lambda>a c. 10 * a + (int (of_char c) - 48)) 0 ds"

text \<open>
  \<^verbatim>\<open>parseInt(x, 10)\<close> of a query parameter (explorer.js, lines 140-141), the
  parameter being a string or absent: an absent parameter is \<^verbatim>\<open>undefined\<close>, whose string
  form has no digits; otherwise leading white space is skipped, one sign is read, and the
  longest run of decimal digits is the value; no digit at all gives \<^verbatim>\<open>NaN\<close>. The value
  is kept exactly, as the runtime does up to \<^verbatim>\<open>Number.MAX_SAFE_INTEGER\<close> in magnitude;
  beyond it the runtime rounds to the nearest number.
\<close>

definition parseInt :: "string option \<Rightarrow> int option" where
  "parseInt x =
     (case x of
        None \<Rightarrow> None
      | Some s \<Rightarrow>
          (let t = dropWhile is_ws s;
               neg = (t \<noteq> [] \<and> hd t = CHR ''-'');
               u = (if t \<noteq> [] \<and> (hd t = CHR ''-'' \<or> hd t = CHR ''+'') then tl t else t);
               ds = takeWhile is_digit u
           in if ds = [] then None
              else Some (if neg then - digits_val ds else digits_val ds)))"

text \<open>Own enumerable properties, as the spread \<^verbatim>\<open>...value\<close> reads them.\<close>

fun own_props :: "jsval \<Rightarrow> (string \<times> jsval) list" where
  "own_props (JObj kvs) = kvs"
| "own_props (JArr xs) = zip (map show_nat [0..<length xs]) xs"
| "own_props (JStr s) = zip (map show_nat [0..<length s]) (map (\<lambda>c. JStr [c]) s)"
| "own_props v = []"

text \<open>The object literal \<^verbatim>\<open>{ ...init, ...value }\<close>: a property of \<open>value\<close> replaces a
  property of the same name, and is appended otherwise.\<close>

definition spread_into :: "(string \<times> jsval) list \<Rightarrow> jsval \<Rightarrow> (string \<times> jsval) list" where
  "spread_into init v = foldl (\<lambda>obj kv. AList.update (fst kv) (snd kv) obj) init (own_props v)"

definition get_prop :: "string \<Rightarrow> jsval \<Rightarrow> jsval option" where
  "get_prop k v = map_of (own_props v) k"

definition has_prop :: "string \<Rightarrow> jsval \<Rightarrow> bool" where
  "has_prop k v = (get_prop k v \<noteq> None)"

section \<open>The collaborators of the handler\<close>

text \<open>A row of the \<^verbatim>\<open>transactions\<close> table as the query selects it
  (\<^verbatim>\<open>block_id, volume, created_at\<close>), with the column types of the specification,
  section 6: an integer, a nullable integer, a text; \<open>None\<close> is SQL \<^verbatim>\<open>NULL\<close>.\<close>

record row =
  block_id :: int
  row_volume :: "int option"
  created_at :: "string option"

text \<open>The two query texts of \<^verbatim>\<open>getDataFromCache\<close> with their bound parameters.\<close>

datatype sql_query =
    SelectBetween int int
  | SelectOldest100

text \<open>
  What the store answers when it works: \<^verbatim>\<open>WHERE block_id BETWEEN ? AND ? ORDER BY
  block_id ASC\<close>, and \<^verbatim>\<open>ORDER BY block_id ASC LIMIT 100\<close>, over the rows of the table.
\<close>

fun sqlite_all :: "row list \<Rightarrow> sql_query \<Rightarrow> row list" where
  "sqlite_all table (SelectBetween lo hi) =
     sort_key block_id (filter (\<lambda>r. lo \<le> block_id r \<and> block_id r \<le> hi) table)"
| "sqlite_all table SelectOldest100 = take 100 (sort_key block_id table)"

text \<open>The JSDoc types \<^verbatim>\<open>Transaction\<close> (its field \<^verbatim>\<open>value\<close> is \<open>val\<close> here) and
  \<^verbatim>\<open>Block\<close> (explorer.js, lines 21-36), the latter with the two fields the handler
  reads; both are read through \<^verbatim>\<open>?.\<close> and may be absent.\<close>

record Transaction =
  cmd :: string
  key :: string
  val :: string

record Block =
  createdAt :: "string option"
  transactions :: "Transaction list option"

text \<open>\<^verbatim>\<open>response?.data\<close>: an array of records (a record may be \<^verbatim>\<open>null\<close>), or a
  value that is no array.\<close>

datatype api_data =
    DataArray "Block option list"
  | DataNull
  | DataUndefined
  | DataNotArray

text \<open>
  What the module imports and talks to. \<^verbatim>\<open>parseTimeToUnixEpoch\<close> (utils/time) and
  \<^verbatim>\<open>applyDeltaEncoding\<close> (utils/encoding) are not part of the available sources and
  are parameters here, free to throw; \<open>db_all\<close> is the outcome of \<^verbatim>\<open>db.all\<close> for a
  query, \<open>axios_request\<close> the outcome of \<^verbatim>\<open>axios.request\<close> for a URL.
\<close>

record env =
  EXPLORER_BASE_URL :: string
  db_all :: "sql_query \<Rightarrow> exn + row list"
  axios_request :: "string \<Rightarrow> exn + api_data"
  parseTimeToUnixEpoch :: "string option \<Rightarrow> exn + int"
  deltaEncode :: "sample list \<Rightarrow> exn + jsval"

datatype event =
    LogInfo string
  | LogError string exn
  | DbAll sql_query
  | AxiosRequest string

record response =
  status :: nat
  body :: jsval

record request =
  query_start :: "string option"
  query_end :: "string option"

section \<open>The handler\<close>

text \<open>\<^verbatim>\<open>Array.prototype.map\<close> with a callback that may throw: the first exception ends
  the loop.\<close>

fun mapE :: "('a \<Rightarrow> exn + 'b) \<Rightarrow> 'a list \<Rightarrow> exn + 'b list" where
  "mapE f [] = Inr []"
| "mapE f (x # xs) =
     (case f x of
        Inl e \<Rightarrow> Inl e
      | Inr y \<Rightarrow> (case mapE f xs of Inl e \<Rightarrow> Inl e | Inr ys \<Rightarrow> Inr (y # ys)))"

text \<open>The query chosen by \<^verbatim>\<open>getDataFromCache\<close> (lines 193-208).\<close>

definition cacheQuery :: "int option \<Rightarrow> int option \<Rightarrow> sql_query" where
  "cacheQuery start end =
     (case (start, end) of
        (Some s, Some e) \<Rightarrow> SelectBetween s e
      | _ \<Rightarrow> SelectOldest100)"

text \<open>\<^verbatim>\<open>getDataFromCache\<close> (lines 187-218): the promise resolves with the rows or
  rejects with the error of \<^verbatim>\<open>db.all\<close>.\<close>

definition getDataFromCache ::
  "env \<Rightarrow> int option \<Rightarrow> int option \<Rightarrow> (exn + row list) \<times> event list" where
  "getDataFromCache env start end =
     (let query = cacheQuery start end in (db_all env query, [DbAll query]))"

text \<open>The URL chosen by \<^verbatim>\<open>getDataFromApi\<close> (lines 228-232).\<close>

definition apiUrl :: "string \<Rightarrow> int option \<Rightarrow> int option \<Rightarrow> string" where
  "apiUrl baseUrl start end =
     (case (start, end) of
        (Some s, Some e) \<Rightarrow> baseUrl @ ''/v1/blocks/'' @ show_int s @ ''/'' @ show_int e
      | _ \<Rightarrow> baseUrl @ ''/v1/blocks/1/100'')"

text \<open>The callback of \<^verbatim>\<open>data.map\<close> (lines 244-249).\<close>

definition blockToSample :: "env \<Rightarrow> Block option \<Rightarrow> exn + sample" where
  "blockToSample env record =
     (case parseTimeToUnixEpoch env (case record of None \<Rightarrow> None | Some b \<Rightarrow> createdAt b) of
        Inl e \<Rightarrow> Inl e
      | Inr t \<Rightarrow>
          Inr \<lparr>epoch = t,
               volume =
                 (case record of
                    None \<Rightarrow> 0
                  | Some b \<Rightarrow>
                      (case transactions b of
                         None \<Rightarrow> 0
                       | Some txs \<Rightarrow> if length txs = 0 then 0 else int (length txs)))\<rparr>)"

text \<open>The apostrophe of the runtime's \<^verbatim>\<open>TypeError\<close> messages.\<close>

definition quote :: string where
  "quote = [CHR 0x27]"

text \<open>\<^verbatim>\<open>getDataFromApi\<close> (lines 227-250): \<^verbatim>\<open>data.map\<close> exists only on an array;
  on \<^verbatim>\<open>null\<close> and \<^verbatim>\<open>undefined\<close> the property read throws, on any other value the call
  does.\<close>

definition getDataFromApi ::
  "env \<Rightarrow> int option \<Rightarrow> int option \<Rightarrow> (exn + sample list) \<times> event list" where
  "getDataFromApi env start end =
     (let baseUrl = apiUrl (EXPLORER_BASE_URL env) start end in
      (case axios_request env baseUrl of
         Inl err \<Rightarrow> Inl err
       | Inr data \<Rightarrow>
           (case data of
              DataArray records \<Rightarrow> mapE (blockToSample env) records
            | DataNull \<Rightarrow>
                Inl (TypeError (''Cannot read properties of null (reading '' @ quote @ ''map''
                                @ quote @ '')''))
            | DataUndefined \<Rightarrow>
                Inl (TypeError (''Cannot read properties of undefined (reading '' @ quote
                                @ ''map'' @ quote @ '')''))
            | DataNotArray \<Rightarrow> Inl (TypeError ''data.map is not a function'')),
       [AxiosRequest baseUrl]))"

text \<open>The callback of \<^verbatim>\<open>cacheData.map\<close> (lines 149-154); \<^verbatim>\<open>record.volume || 0\<close>
  replaces \<^verbatim>\<open>null\<close> and \<open>0\<close> by \<open>0\<close>.\<close>

definition rowToSample :: "env \<Rightarrow> row \<Rightarrow> exn + sample" where
  "rowToSample env record =
     (case parseTimeToUnixEpoch env (created_at record) of
        Inl e \<Rightarrow> Inl e
      | Inr t \<Rightarrow>
          Inr \<lparr>epoch = t,
               volume = (case row_volume record of
                           None \<Rightarrow> 0
                         | Some v \<Rightarrow> if v = 0 then 0 else v)\<rparr>)"

text \<open>
  The body of the first \<^verbatim>\<open>try\<close> (lines 144-162): \<open>Inr (Some r)\<close> when it returns the
  response \<open>r\<close>, \<open>Inr None\<close> when it falls through after a miss, \<open>Inl e\<close> when it throws.
\<close>

definition cacheBranch ::
  "env \<Rightarrow> int option \<Rightarrow> int option \<Rightarrow> (exn + response option) \<times> event list" where
  "cacheBranch env start end =
     (let (res, evs) = getDataFromCache env start end;
          evs0 = LogInfo ''Attempting to fetch blocks from cache'' # evs
      in case res of
           Inl err \<Rightarrow> (Inl err, evs0)
         | Inr cacheData \<Rightarrow>
             if length cacheData > 0 then
               (let evs1 = evs0 @ [LogInfo (''Cache hit for blocks, returned ''
                                    @ show_nat (length cacheData) @ '' records'')]
                in case mapE (rowToSample env) cacheData of
                     Inl err \<Rightarrow> (Inl err, evs1)
                   | Inr modifiedData \<Rightarrow>
                       (case deltaEncode env modifiedData of
                          Inl err \<Rightarrow> (Inl err, evs1)
                        | Inr encoded \<Rightarrow>
                            (Inr (Some \<lparr>status = 200,
                                        body = JObj (spread_into [(''isCached'', JBool True)]
                                                       encoded)\<rparr>),
                             evs1)))
             else
               (Inr None,
                evs0 @ [LogInfo (''Cache miss for blocks '' @ show_number start @ ''-''
                          @ show_number end @ '', falling back to API'')]))"

text \<open>The body of the second \<^verbatim>\<open>try\<close> up to the value it sends (lines 168-169).\<close>

definition apiTry :: "env \<Rightarrow> int option \<Rightarrow> int option \<Rightarrow> (exn + jsval) \<times> event list" where
  "apiTry env start end =
     (let (res, evs) = getDataFromApi env start end
      in (case res of Inl err \<Rightarrow> Inl err | Inr apiData \<Rightarrow> deltaEncode env apiData, evs))"

text \<open>The second \<^verbatim>\<open>try\<close>/\<^verbatim>\<open>catch\<close> (lines 167-177).\<close>

definition apiBranch :: "env \<Rightarrow> int option \<Rightarrow> int option \<Rightarrow> response \<times> event list" where
  "apiBranch env start end =
     (let (res, evs) = apiTry env start end
      in case res of
           Inr modifiedData \<Rightarrow> (\<lparr>status = 200, body = modifiedData\<rparr>, evs)
         | Inl error \<Rightarrow>
             (\<lparr>status = 500,
               body = JObj [(''error'', JStr ''Failed to fetch block data''),
                            (''details'', JStr (message error))]\<rparr>,
              evs @ [LogError ''Error fetching block data from API:'' error]))"

text \<open>\<^verbatim>\<open>getEncodedBlocks\<close> (lines 139-178): the response sent and the calls and log
  entries made, in order.\<close>

definition getEncodedBlocks :: "env \<Rightarrow> request \<Rightarrow> response \<times> event list" where
  "getEncodedBlocks env req =
     (let start = parseInt (query_start req);
          end = parseInt (query_end req)
      in case cacheBranch env start end of
           (Inr (Some sent), evs) \<Rightarrow> (sent, evs)
         | (Inr None, evs) \<Rightarrow>
             (let (sent, evs') = apiBranch env start end in (sent, evs @ evs'))
         | (Inl cacheError, evs) \<Rightarrow>
             (let (sent, evs') = apiBranch env start end
              in (sent,
                  evs @ [LogError ''Error retrieving data from cache. Continue to API fallback''
                           cacheError] @ evs')))"

section \<open>A concrete deployment for examples\<close>

text \<open>
  The wire form of an encoded series used in the examples below. The specification
  leaves the field names of the series open; the examples only need some object without
  a property named \<^verbatim>\<open>isCached\<close>.
\<close>

definition sample_pair :: "sample \<Rightarrow> jsval" where
  "sample_pair s = JArr [JNum (epoch s), JNum (volume s)]"

definition series_to_js :: "EncodedSeries \<Rightarrow> jsval" where
  "series_to_js series =
     JObj [(''base'', case base series of None \<Rightarrow> JNull | Some b \<Rightarrow> sample_pair b),
           (''deltas'', JArr (map (\<lambda>d. JArr [JNum (fst d), JNum (snd d)]) (deltas series))),
           (''length'', JNum (int (declared_length series)))]"

text \<open>Two timestamps with their unix epochs in seconds; any other input makes this
  converter throw.\<close>

definition epoch_table :: "string option \<Rightarrow> exn + int" where
  "epoch_table x =
     (if x = Some ''Thu, 01 Jan 1970 00:00:05 GMT'' then Inr 5
      else if x = Some ''Thu, 01 Jan 1970 00:00:10 GMT'' then Inr 10
      else Inl (Error ''Invalid time value''))"

definition demo_env :: "row list \<Rightarrow> (exn + api_data) \<Rightarrow> env" where
  "demo_env table remote =
     \<lparr>EXPLORER_BASE_URL = ''http://explorer'',
      db_all = (\<lambda>q. Inr (sqlite_all table q)),
      axios_request = (\<lambda>url. remote),
      parseTimeToUnixEpoch = epoch_table,
      deltaEncode = (\<lambda>ss. Inr (series_to_js (applyDeltaEncoding ss)))\<rparr>"

text \<open>A table whose block ids and creation times run in opposite directions, a table
  whose rows are in time order, and requests for the range \<open>[1, 2]\<close> and for no range.\<close>

definition unordered_table :: "row list" where
  "unordered_table =
     [\<lparr>block_id = 2, row_volume = Some 4,
       created_at = Some ''Thu, 01 Jan 1970 00:00:05 GMT''\<rparr>,
      \<lparr>block_id = 1, row_volume = None,
       created_at = Some ''Thu, 01 Jan 1970 00:00:10 GMT''\<rparr>]"

definition ordered_table :: "row list" where
  "ordered_table =
     [\<lparr>block_id = 2, row_volume = Some 4,
       created_at = Some ''Thu, 01 Jan 1970 00:00:10 GMT''\<rparr>,
      \<lparr>block_id = 1, row_volume = None,
       created_at = Some ''Thu, 01 Jan 1970 00:00:05 GMT''\<rparr>]"

definition bad_time_table :: "row list" where
  "bad_time_table = [\<lparr>block_id = 1, row_volume = Some 3, created_at = Some ''yesterday''\<rparr>]"

definition range_request :: request where
  "range_request = \<lparr>query_start = Some ''1'', query_end = Some ''2''\<rparr>"

definition open_request :: request where
  "open_request = \<lparr>query_start = Some ''7'', query_end = None\<rparr>"

definition remote_blocks :: api_data where
  "remote_blocks =
     DataArray
       [Some \<lparr>createdAt = Some ''Thu, 01 Jan 1970 00:00:05 GMT'',
              transactions = Some [\<lparr>cmd = ''SET'', key = ''k'', val = ''v''\<rparr>,
                                   \<lparr>cmd = ''SET'', key = ''l'', val = ''w''\<rparr>]\<rparr>,
        Some \<lparr>createdAt = Some ''Thu, 01 Jan 1970 00:00:10 GMT'', transactions = None\<rparr>]"

text \<open>The same deployment with a store whose every query fails with an error that
  \<^verbatim>\<open>db.all\<close> delivers to its callback.\<close>

definition failing_env :: "row list \<Rightarrow> (exn + api_data) \<Rightarrow> env" where
  "failing_env table remote =
     (demo_env table remote)\<lparr>db_all := (\<lambda>q. Inl (Error ''SQLITE_ERROR: no such table: transactions''))\<rparr>"

text \<open>The start and end the handler computes from a request.\<close>

abbreviation req_start :: "request \<Rightarrow> int option" where
  "req_start req \<equiv> parseInt (query_start req)"

abbreviation req_end :: "request \<Rightarrow> int option" where
  "req_end req \<equiv> parseInt (query_end req)"

text \<open>The calls to the remote API among the events of a run.\<close>

fun is_request :: "event \<Rightarrow> bool" where
  "is_request (AxiosRequest url) = True"
| "is_request ev = False"

definition requests :: "event list \<Rightarrow> event list" where
  "requests evs = filter is_request evs"

text \<open>The body of the 500 response (lines 173-176).\<close>

definition failure_body :: "exn \<Rightarrow> jsval" where
  "failure_body err =
     JObj [(''error'', JStr ''Failed to fetch block data''), (''details'', JStr (message err))]"

text \<open>\<^verbatim>\<open>Number.MAX_SAFE_INTEGER\<close>, and the bounds within it: the integers that
  \<^verbatim>\<open>parseInt\<close> returns exactly and that a template literal prints in plain decimal.
  \<^verbatim>\<open>NaN\<close> counts as within, since it selects the default range.\<close>

definition MAX_SAFE_INTEGER :: int where
  "MAX_SAFE_INTEGER = 2 ^ 53 - 1"

definition safe_integer :: "int \<Rightarrow> bool" where
  "safe_integer i = (- MAX_SAFE_INTEGER \<le> i \<and> i \<le> MAX_SAFE_INTEGER)"

definition safe_bound :: "int option \<Rightarrow> bool" where
  "safe_bound x = (case x of None \<Rightarrow> True | Some i \<Rightarrow> safe_integer i)"

text \<open>What a row and a remote record are expected to become, given the epoch \<open>t\<close> that the
  time conversion assigns to each of them: the row's volume, or \<open>0\<close> for \<^verbatim>\<open>NULL\<close>; the
  number of transactions of the record, or \<open>0\<close> without a transaction list.\<close>

definition expected_row_sample :: "(row \<Rightarrow> int) \<Rightarrow> row \<Rightarrow> sample" where
  "expected_row_sample t r =
     \<lparr>epoch = t r, volume = (case row_volume r of None \<Rightarrow> 0 | Some v \<Rightarrow> v)\<rparr>"

definition record_createdAt :: "Block option \<Rightarrow> string option" where
  "record_createdAt r = (case r of None \<Rightarrow> None | Some b \<Rightarrow> createdAt b)"

definition transaction_count :: "Block option \<Rightarrow> int" where
  "transaction_count r =
     (case r of
        None \<Rightarrow> 0
      | Some b \<Rightarrow> (case transactions b of None \<Rightarrow> 0 | Some txs \<Rightarrow> int (length txs)))"

definition expected_block_sample :: "(Block option \<Rightarrow> int) \<Rightarrow> Block option \<Rightarrow> sample" where
  "expected_block_sample t r = \<lparr>epoch = t r, volume = transaction_count r\<rparr>"

section \<open>Properties of the codec\<close>

lemma sample_rebuild: "\<lparr>epoch = epoch s, volume = volume s\<rparr> = s"
  by (cases s) simp

lemma accumulate_deltas_from: "accumulate prev (deltas_from prev ss) = ss"
  by (induction ss arbitrary: prev) (simp_all add: Let_def sample_rebuild)

lemma length_deltas_from: "length (deltas_from prev ss) = length ss"
  by (induction ss arbitrary: prev) simp_all

text \<open>
  Claim C1. Decoding the encoding of any finite sequence of samples, the empty and the
  one-element sequence included, gives back the sequence itself.
\<close>

theorem decode_encode_roundtrip:
  "decodeDeltaEncoding (applyDeltaEncoding s) = Inr s"
  by (cases s) (simp_all add: decodeDeltaEncoding_def accumulate_deltas_from length_deltas_from)

section \<open>Control flow of the handler\<close>

lemma mapE_all_Inr: "(\<forall>x\<in>set xs. f x = Inr (g x)) \<Longrightarrow> mapE f xs = Inr (map g xs)"
  by (induction xs) simp_all

lemma snd_getDataFromApi:
  "snd (getDataFromApi env s e) = [AxiosRequest (apiUrl (EXPLORER_BASE_URL env) s e)]"
  by (simp add: getDataFromApi_def Let_def)

lemma snd_apiTry: "snd (apiTry env s e) = snd (getDataFromApi env s e)"
  by (simp add: apiTry_def split_beta)

lemma requests_apiBranch:
  "requests (snd (apiBranch env s e)) = [AxiosRequest (apiUrl (EXPLORER_BASE_URL env) s e)]"
  using snd_apiTry [of env s e] snd_getDataFromApi [of env s e]
  by (auto simp: apiBranch_def split_beta requests_def split: sum.splits)

lemma requests_cacheBranch: "requests (snd (cacheBranch env s e)) = []"
  by (auto simp: cacheBranch_def getDataFromCache_def Let_def requests_def split: sum.splits)

lemma blockToSample_ignores_db: "blockToSample (env\<lparr>db_all := d\<rparr>) = blockToSample env"
  by (rule ext) (simp add: blockToSample_def)

lemma getDataFromApi_ignores_db:
  "getDataFromApi (env\<lparr>db_all := d\<rparr>) s e = getDataFromApi env s e"
  by (simp add: getDataFromApi_def Let_def blockToSample_ignores_db
      split: sum.splits api_data.splits)

lemma apiBranch_ignores_db: "apiBranch (env\<lparr>db_all := d\<rparr>) s e = apiBranch env s e"
proof -
  have "apiTry (env\<lparr>db_all := d\<rparr>) s e = apiTry env s e"
    by (cases "getDataFromApi env s e"; cases "fst (getDataFromApi env s e)")
       (simp_all add: apiTry_def getDataFromApi_ignores_db)
  then show ?thesis
    by (simp add: apiBranch_def)
qed

lemma fst_apiBranch_fail:
  "fst (apiTry env s e) = Inl err \<Longrightarrow>
   fst (apiBranch env s e) = \<lparr>status = 500, body = failure_body err\<rparr>"
  by (simp add: apiBranch_def split_beta failure_body_def)

lemma fst_apiBranch_ok:
  "fst (apiTry env s e) = Inr enc \<Longrightarrow> fst (apiBranch env s e) = \<lparr>status = 200, body = enc\<rparr>"
  by (simp add: apiBranch_def split_beta)

lemma handler_fallback:
  assumes "\<nexists>sent. fst (cacheBranch env (req_start req) (req_end req)) = Inr (Some sent)"
  shows "fst (getEncodedBlocks env req) = fst (apiBranch env (req_start req) (req_end req))"
    and "requests (snd (getEncodedBlocks env req)) =
           [AxiosRequest (apiUrl (EXPLORER_BASE_URL env) (req_start req) (req_end req))]"
  using assms requests_cacheBranch [of env "req_start req" "req_end req"]
    requests_apiBranch [of env "req_start req" "req_end req"]
  by (auto simp: getEncodedBlocks_def Let_def split_beta requests_def
      split: prod.splits sum.splits option.splits)

lemma handler_hit:
  assumes "fst (cacheBranch env (req_start req) (req_end req)) = Inr (Some sent)"
  shows "fst (getEncodedBlocks env req) = sent"
    and "requests (snd (getEncodedBlocks env req)) = []"
  using assms requests_cacheBranch [of env "req_start req" "req_end req"]
  by (auto simp: getEncodedBlocks_def Let_def split_beta requests_def
      split: prod.splits sum.splits option.splits)

lemma cacheBranch_storage_error:
  "fst (getDataFromCache env s e) = Inl err \<Longrightarrow> fst (cacheBranch env s e) = Inl err"
  by (simp add: cacheBranch_def split_beta)

lemma cacheBranch_empty:
  "fst (getDataFromCache env s e) = Inr [] \<Longrightarrow> fst (cacheBranch env s e) = Inr None"
  by (simp add: cacheBranch_def split_beta)

lemma cacheBranch_conversion_error:
  "fst (getDataFromCache env s e) = Inr rows \<Longrightarrow> rows \<noteq> [] \<Longrightarrow>
   mapE (rowToSample env) rows = Inl err \<Longrightarrow> fst (cacheBranch env s e) = Inl err"
  by (simp add: cacheBranch_def split_beta Let_def)

lemma cacheBranch_encoding_error:
  "fst (getDataFromCache env s e) = Inr rows \<Longrightarrow> rows \<noteq> [] \<Longrightarrow>
   mapE (rowToSample env) rows = Inr ss \<Longrightarrow> deltaEncode env ss = Inl err \<Longrightarrow>
   fst (cacheBranch env s e) = Inl err"
  by (simp add: cacheBranch_def split_beta Let_def)

lemma cacheBranch_hit:
  "fst (getDataFromCache env s e) = Inr rows \<Longrightarrow> rows \<noteq> [] \<Longrightarrow>
   mapE (rowToSample env) rows = Inr ss \<Longrightarrow> deltaEncode env ss = Inr enc \<Longrightarrow>
   fst (cacheBranch env s e) =
     Inr (Some \<lparr>status = 200, body = JObj (spread_into [(''isCached'', JBool True)] enc)\<rparr>)"
  by (simp add: cacheBranch_def split_beta Let_def)

text \<open>The definitions unfolded to run the handler on the concrete deployment.\<close>

lemmas run_defs =
  getEncodedBlocks_def cacheBranch_def apiBranch_def apiTry_def getDataFromCache_def
  getDataFromApi_def cacheQuery_def apiUrl_def rowToSample_def blockToSample_def
  demo_env_def failing_env_def epoch_table_def series_to_js_def sample_pair_def
  spread_into_def requests_def failure_body_def
  parseInt_def is_ws_def is_digit_def digits_val_def show_int_def show_number_def
  range_request_def open_request_def remote_blocks_def unordered_table_def
  ordered_table_def bad_time_table_def quote_def

text \<open>
  Claim C2. When the cache read raises a storage error or returns no row, the response is
  the one the API branch produces for the same start and end, whatever the store did (the
  store \<open>d\<close> on the right is arbitrary, so neither the error nor anything else of the
  cache read reaches the response), and the run makes exactly one request to the remote
  API, for that start and end. An error and an empty result are not told apart.
\<close>
theorem cache_miss_or_error_falls_back:
  assumes "fst (getDataFromCache env (req_start req) (req_end req)) = Inl err
         \<or> fst (getDataFromCache env (req_start req) (req_end req)) = Inr []"
  shows "fst (getEncodedBlocks env req) =
           fst (apiBranch (env\<lparr>db_all := d\<rparr>) (req_start req) (req_end req))
       \<and> requests (snd (getEncodedBlocks env req)) =
           [AxiosRequest (apiUrl (EXPLORER_BASE_URL env) (req_start req) (req_end req))]"
proof -
  from assms have "fst (cacheBranch env (req_start req) (req_end req)) = Inl err
      \<or> fst (cacheBranch env (req_start req) (req_end req)) = Inr None"
    by (auto dest: cacheBranch_storage_error cacheBranch_empty)
  then have "\<nexists>sent. fst (cacheBranch env (req_start req) (req_end req)) = Inr (Some sent)"
    by auto
  then show ?thesis
    by (simp add: handler_fallback apiBranch_ignores_db)
qed

theorem cache_miss_or_error_falls_back_witness:
  "fst (getDataFromCache (failing_env ordered_table (Inr remote_blocks))
         (req_start range_request) (req_end range_request))
     = Inl (Error ''SQLITE_ERROR: no such table: transactions'')
   \<and> fst (getEncodedBlocks (failing_env ordered_table (Inr remote_blocks)) range_request) =
       \<lparr>status = 200,
        body = series_to_js (applyDeltaEncoding
                 [\<lparr>epoch = 5, volume = 2\<rparr>, \<lparr>epoch = 10, volume = 0\<rparr>])\<rparr>
   \<and> requests (snd (getEncodedBlocks (failing_env ordered_table (Inr remote_blocks))
         range_request)) = [AxiosRequest ''http://explorer/v1/blocks/1/2'']"
proof -
  have h: "fst (getDataFromCache (failing_env ordered_table (Inr remote_blocks))
         (req_start range_request) (req_end range_request))
     = Inl (Error ''SQLITE_ERROR: no such table: transactions'')"
    by (simp add: getDataFromCache_def failing_env_def demo_env_def)
  have a: "fst (apiBranch ((failing_env ordered_table (Inr remote_blocks))
              \<lparr>db_all := (\<lambda>q. Inr [])\<rparr>) (req_start range_request) (req_end range_request)) =
       \<lparr>status = 200,
        body = series_to_js (applyDeltaEncoding
                 [\<lparr>epoch = 5, volume = 2\<rparr>, \<lparr>epoch = 10, volume = 0\<rparr>])\<rparr>"
    by (simp add: run_defs)
  have u: "apiUrl (EXPLORER_BASE_URL (failing_env ordered_table (Inr remote_blocks)))
             (req_start range_request) (req_end range_request) = ''http://explorer/v1/blocks/1/2''"
    by (simp add: run_defs show_nat.simps)
  from cache_miss_or_error_falls_back [of _ _ _ "\<lambda>q. Inr []", OF disjI1, OF h] a u
  show ?thesis using h by simp
qed

text \<open>
  Claim C10. Whatever is thrown inside the first \<^verbatim>\<open>try\<close> is absorbed: a storage
  error, an exception of the time conversion on a row of a cache hit, or an exception of
  the delta encoding of the converted rows. The handler then answers with the API branch
  for the same start and end and makes exactly one request to the remote API.
\<close>
theorem cache_branch_exception_absorbed:
  assumes "fst (getDataFromCache env (req_start req) (req_end req)) = Inl err
     \<or> (\<exists>rows. fst (getDataFromCache env (req_start req) (req_end req)) = Inr rows \<and> rows \<noteq> []
          \<and> (mapE (rowToSample env) rows = Inl err
             \<or> (\<exists>ss. mapE (rowToSample env) rows = Inr ss \<and> deltaEncode env ss = Inl err)))"
  shows "fst (cacheBranch env (req_start req) (req_end req)) = Inl err
       \<and> fst (getEncodedBlocks env req) = fst (apiBranch env (req_start req) (req_end req))
       \<and> requests (snd (getEncodedBlocks env req)) =
           [AxiosRequest (apiUrl (EXPLORER_BASE_URL env) (req_start req) (req_end req))]"
proof -
  from assms have c: "fst (cacheBranch env (req_start req) (req_end req)) = Inl err"
    by (auto dest: cacheBranch_storage_error cacheBranch_conversion_error
        cacheBranch_encoding_error)
  then have "\<nexists>sent. fst (cacheBranch env (req_start req) (req_end req)) = Inr (Some sent)"
    by simp
  with c show ?thesis
    by (simp add: handler_fallback)
qed

theorem cache_branch_exception_absorbed_witness:
  "fst (getDataFromCache (demo_env bad_time_table (Inr remote_blocks))
      (req_start open_request) (req_end open_request)) = Inr bad_time_table
   \<and> bad_time_table \<noteq> []
   \<and> mapE (rowToSample (demo_env bad_time_table (Inr remote_blocks))) bad_time_table
       = Inl (Error ''Invalid time value'')
   \<and> fst (getEncodedBlocks (demo_env bad_time_table (Inr remote_blocks)) open_request) =
       \<lparr>status = 200,
        body = series_to_js (applyDeltaEncoding
                 [\<lparr>epoch = 5, volume = 2\<rparr>, \<lparr>epoch = 10, volume = 0\<rparr>])\<rparr>
   \<and> requests (snd (getEncodedBlocks (demo_env bad_time_table (Inr remote_blocks))
         open_request)) = [AxiosRequest ''http://explorer/v1/blocks/1/100'']"
proof -
  let ?env = "demo_env bad_time_table (Inr remote_blocks)"
  have h1: "fst (getDataFromCache ?env (req_start open_request) (req_end open_request))
      = Inr bad_time_table"
    by (simp add: run_defs)
  have h2: "bad_time_table \<noteq> []"
    by (simp add: bad_time_table_def)
  have h3: "mapE (rowToSample ?env) bad_time_table = Inl (Error ''Invalid time value'')"
    by (simp add: run_defs)
  have a: "fst (apiBranch ?env (req_start open_request) (req_end open_request)) =
       \<lparr>status = 200,
        body = series_to_js (applyDeltaEncoding
                 [\<lparr>epoch = 5, volume = 2\<rparr>, \<lparr>epoch = 10, volume = 0\<rparr>])\<rparr>"
    by (simp add: run_defs)
  have u: "apiUrl (EXPLORER_BASE_URL ?env) (req_start open_request) (req_end open_request)
      = ''http://explorer/v1/blocks/1/100''"
    by (simp add: run_defs)
  have "fst (getDataFromCache ?env (req_start open_request) (req_end open_request))
          = Inl (Error ''Invalid time value'')
     \<or> (\<exists>rows. fst (getDataFromCache ?env (req_start open_request) (req_end open_request))
            = Inr rows \<and> rows \<noteq> []
          \<and> (mapE (rowToSample ?env) rows = Inl (Error ''Invalid time value'')
             \<or> (\<exists>ss. mapE (rowToSample ?env) rows = Inr ss
                  \<and> deltaEncode ?env ss = Inl (Error ''Invalid time value''))))"
    using h1 h2 h3 by blast
  from cache_branch_exception_absorbed [OF this] a u h1 h2 h3
  show ?thesis by simp
qed

text \<open>
  Claim C7. When the cache branch sends nothing (it throws, or misses) and the API
  branch throws \<open>err\<close>, the one response of the handler has status 500 and a body with
  the fields \<^verbatim>\<open>error\<close> and \<^verbatim>\<open>details\<close>, the latter being the message of \<open>err\<close>; no
  success response is sent.
\<close>
theorem double_failure_single_500:
  assumes "fst (cacheBranch env (req_start req) (req_end req)) = Inl cacheError
         \<or> fst (cacheBranch env (req_start req) (req_end req)) = Inr None"
    and "fst (apiTry env (req_start req) (req_end req)) = Inl err"
  shows "fst (getEncodedBlocks env req) =
           \<lparr>status = 500,
            body = JObj [(''error'', JStr ''Failed to fetch block data''),
                         (''details'', JStr (message err))]\<rparr>"
proof -
  from assms(1)
  have "\<nexists>sent. fst (cacheBranch env (req_start req) (req_end req)) = Inr (Some sent)"
    by auto
  then show ?thesis
    using fst_apiBranch_fail [OF assms(2)] by (simp add: handler_fallback failure_body_def)
qed

theorem double_failure_single_500_witness:
  "fst (cacheBranch (failing_env ordered_table (Inl (Error ''connect ECONNREFUSED'')))
         (req_start range_request) (req_end range_request))
     = Inl (Error ''SQLITE_ERROR: no such table: transactions'')
   \<and> fst (apiTry (failing_env ordered_table (Inl (Error ''connect ECONNREFUSED'')))
         (req_start range_request) (req_end range_request)) = Inl (Error ''connect ECONNREFUSED'')
   \<and> fst (getEncodedBlocks (failing_env ordered_table (Inl (Error ''connect ECONNREFUSED'')))
         range_request) =
       \<lparr>status = 500,
        body = JObj [(''error'', JStr ''Failed to fetch block data''),
                     (''details'', JStr ''connect ECONNREFUSED'')]\<rparr>"
proof -
  let ?env = "failing_env ordered_table (Inl (Error ''connect ECONNREFUSED''))"
  have h1: "fst (cacheBranch ?env (req_start range_request) (req_end range_request))
     = Inl (Error ''SQLITE_ERROR: no such table: transactions'')"
    by (simp add: run_defs)
  have h2: "fst (apiTry ?env (req_start range_request) (req_end range_request))
     = Inl (Error ''connect ECONNREFUSED'')"
    by (simp add: run_defs)
  from double_failure_single_500 [OF disjI1, OF h1 h2] h1 h2
  show ?thesis by simp
qed

text \<open>
  Claim C9. When the remote answers successfully with a body that is \<^verbatim>\<open>null\<close>,
  \<^verbatim>\<open>undefined\<close> or any other value that is no array, \<^verbatim>\<open>getDataFromApi\<close> throws a
  \<^verbatim>\<open>TypeError\<close> instead of returning an empty list, and a request that reaches the
  API branch is answered with status 500 carrying that error's message.
\<close>
theorem non_array_body_throws:
  assumes "axios_request env (apiUrl (EXPLORER_BASE_URL env) (req_start req) (req_end req))
             = Inr data"
    and "data = DataNull \<or> data = DataUndefined \<or> data = DataNotArray"
    and "fst (cacheBranch env (req_start req) (req_end req)) = Inl cacheError
         \<or> fst (cacheBranch env (req_start req) (req_end req)) = Inr None"
  shows "\<exists>m. fst (getDataFromApi env (req_start req) (req_end req)) = Inl (TypeError m)
           \<and> fst (getEncodedBlocks env req) =
               \<lparr>status = 500,
                body = JObj [(''error'', JStr ''Failed to fetch block data''),
                             (''details'', JStr m)]\<rparr>"
proof -
  from assms(1,2) obtain m
    where m: "fst (getDataFromApi env (req_start req) (req_end req)) = Inl (TypeError m)"
    by (auto simp: getDataFromApi_def Let_def)
  then have "fst (apiTry env (req_start req) (req_end req)) = Inl (TypeError m)"
    by (simp add: apiTry_def split_beta)
  from fst_apiBranch_fail [OF this] assms(3) m show ?thesis
    by (auto simp: handler_fallback failure_body_def)
qed

theorem non_array_body_throws_witness:
  "axios_request (demo_env [] (Inr DataNull))
      (apiUrl (EXPLORER_BASE_URL (demo_env [] (Inr DataNull)))
         (req_start range_request) (req_end range_request)) = Inr DataNull
   \<and> fst (cacheBranch (demo_env [] (Inr DataNull))
         (req_start range_request) (req_end range_request)) = Inr None
   \<and> (\<exists>m. fst (getDataFromApi (demo_env [] (Inr DataNull))
              (req_start range_request) (req_end range_request)) = Inl (TypeError m)
          \<and> fst (getEncodedBlocks (demo_env [] (Inr DataNull)) range_request) =
               \<lparr>status = 500,
                body = JObj [(''error'', JStr ''Failed to fetch block data''),
                             (''details'', JStr m)]\<rparr>)"
proof -
  let ?env = "demo_env [] (Inr DataNull)"
  have h1: "axios_request ?env
      (apiUrl (EXPLORER_BASE_URL ?env) (req_start range_request) (req_end range_request))
        = Inr DataNull"
    by (simp add: demo_env_def)
  have h3: "fst (cacheBranch ?env (req_start range_request) (req_end range_request)) = Inr None"
    by (simp add: run_defs)
  from non_array_body_throws [OF h1 disjI1 disjI2, OF refl h3] h1 h3
  show ?thesis by simp
qed

section \<open>The response envelope\<close>

lemma spread_keys:
  "fst ` set (foldl (\<lambda>obj kv. AList.update (fst kv) (snd kv) obj) init kvs)
     = fst ` set init \<union> fst ` set kvs"
  by (induction kvs arbitrary: init) (auto simp: AList.dom_update)

lemma spread_lookup_other:
  "k \<notin> fst ` set kvs \<Longrightarrow>
   map_of (foldl (\<lambda>obj kv. AList.update (fst kv) (snd kv) obj) init kvs) k = map_of init k"
  by (induction kvs arbitrary: init) (auto simp: AList.update_conv')

lemma has_prop_keys: "has_prop k v \<longleftrightarrow> k \<in> fst ` set (own_props v)"
  by (simp add: has_prop_def get_prop_def map_of_eq_None_iff)

lemma has_prop_spread:
  "has_prop k (JObj (spread_into init v)) \<longleftrightarrow> k \<in> fst ` set init \<or> has_prop k v"
  by (simp add: has_prop_keys spread_into_def spread_keys)

lemma get_prop_spread_fresh:
  "\<not> has_prop k v \<Longrightarrow> get_prop k (JObj (spread_into init v)) = map_of init k"
  by (simp add: has_prop_keys get_prop_def spread_into_def spread_lookup_other)

lemma cacheBranch_hit_cases:
  "fst (cacheBranch env s e) = Inr (Some sent) \<Longrightarrow>
   \<exists>ss enc. deltaEncode env ss = Inr enc \<and>
     sent = \<lparr>status = 200, body = JObj (spread_into [(''isCached'', JBool True)] enc)\<rparr>"
  by (auto simp: cacheBranch_def split_beta Let_def split: sum.splits if_splits)

lemma apiTry_ok_cases:
  "fst (apiTry env s e) = Inr enc \<Longrightarrow> \<exists>ss. deltaEncode env ss = Inr enc"
  by (auto simp: apiTry_def split_beta split: sum.splits)

lemma failure_body_no_isCached: "\<not> has_prop ''isCached'' (failure_body err)"
  by (simp add: has_prop_def get_prop_def failure_body_def)

text \<open>
  Claim C4. Provided the encoder itself never emits a property named \<^verbatim>\<open>isCached\<close>
  (the encoder is an import whose field layout is a parameter here), the response body has
  an \<^verbatim>\<open>isCached\<close> property exactly when the cache branch sent the response, the
  property is then \<^verbatim>\<open>true\<close>, and a successful response of the API fallback is the
  encoder's output as it is, without any \<^verbatim>\<open>isCached\<close> property.
\<close>
theorem isCached_only_on_cache_hit:
  assumes clean: "\<forall>ss enc. deltaEncode env ss = Inr enc \<longrightarrow> \<not> has_prop ''isCached'' enc"
  shows "(has_prop ''isCached'' (body (fst (getEncodedBlocks env req)))
            \<longleftrightarrow> (\<exists>sent. fst (cacheBranch env (req_start req) (req_end req)) = Inr (Some sent)))
       \<and> (has_prop ''isCached'' (body (fst (getEncodedBlocks env req)))
            \<longrightarrow> get_prop ''isCached'' (body (fst (getEncodedBlocks env req))) = Some (JBool True))
       \<and> (\<forall>enc. (\<nexists>sent. fst (cacheBranch env (req_start req) (req_end req)) = Inr (Some sent))
                 \<and> fst (apiTry env (req_start req) (req_end req)) = Inr enc
            \<longrightarrow> fst (getEncodedBlocks env req) = \<lparr>status = 200, body = enc\<rparr>
                \<and> \<not> has_prop ''isCached'' enc)"
proof (cases "\<exists>sent. fst (cacheBranch env (req_start req) (req_end req)) = Inr (Some sent)")
  case True
  then obtain sent where s: "fst (cacheBranch env (req_start req) (req_end req)) = Inr (Some sent)"
    by blast
  from cacheBranch_hit_cases [OF s] obtain ss enc where
    enc: "deltaEncode env ss = Inr enc"
      "sent = \<lparr>status = 200, body = JObj (spread_into [(''isCached'', JBool True)] enc)\<rparr>"
    by blast
  from clean enc(1) have "\<not> has_prop ''isCached'' enc" by blast
  then have "get_prop ''isCached'' (body sent) = Some (JBool True)"
    using enc(2) by (simp add: get_prop_spread_fresh)
  moreover have "has_prop ''isCached'' (body sent)"
    using enc(2) by (simp add: has_prop_spread)
  ultimately show ?thesis
    using True s by (simp add: handler_hit(1) [OF s])
next
  case False
  have r: "fst (getEncodedBlocks env req) = fst (apiBranch env (req_start req) (req_end req))"
    using False by (rule handler_fallback(1))
  have no: "\<not> has_prop ''isCached'' (body (fst (apiBranch env (req_start req) (req_end req))))"
  proof (cases "fst (apiTry env (req_start req) (req_end req))")
    case (Inl err)
    then show ?thesis
      by (simp add: fst_apiBranch_fail failure_body_no_isCached)
  next
    case (Inr enc)
    with clean apiTry_ok_cases [OF Inr] show ?thesis
      by (auto simp: fst_apiBranch_ok)
  qed
  show ?thesis
    using False r no clean by (auto simp: fst_apiBranch_ok dest: apiTry_ok_cases)
qed

lemma demo_encoder_clean:
  "\<forall>ss enc. deltaEncode (demo_env table remote) ss = Inr enc \<longrightarrow> \<not> has_prop ''isCached'' enc"
  by (auto simp: demo_env_def series_to_js_def has_prop_def get_prop_def)

theorem isCached_only_on_cache_hit_witness:
  "has_prop ''isCached''
      (body (fst (getEncodedBlocks (demo_env ordered_table (Inr remote_blocks)) range_request)))
   \<and> get_prop ''isCached''
      (body (fst (getEncodedBlocks (demo_env ordered_table (Inr remote_blocks)) range_request)))
       = Some (JBool True)
   \<and> fst (getEncodedBlocks (demo_env [] (Inr remote_blocks)) range_request) =
       \<lparr>status = 200,
        body = series_to_js (applyDeltaEncoding
                 [\<lparr>epoch = 5, volume = 2\<rparr>, \<lparr>epoch = 10, volume = 0\<rparr>])\<rparr>
   \<and> \<not> has_prop ''isCached''
        (body (fst (getEncodedBlocks (demo_env [] (Inr remote_blocks)) range_request)))"
proof -
  let ?hit = "demo_env ordered_table (Inr remote_blocks)"
  let ?miss = "demo_env [] (Inr remote_blocks)"
  have hit: "\<exists>sent. fst (cacheBranch ?hit (req_start range_request) (req_end range_request))
      = Inr (Some sent)"
    by (simp add: run_defs)
  have miss: "\<nexists>sent. fst (cacheBranch ?miss (req_start range_request) (req_end range_request))
      = Inr (Some sent)"
    by (simp add: run_defs)
  have api: "fst (apiTry ?miss (req_start range_request) (req_end range_request))
      = Inr (series_to_js (applyDeltaEncoding
                 [\<lparr>epoch = 5, volume = 2\<rparr>, \<lparr>epoch = 10, volume = 0\<rparr>]))"
    by (simp add: run_defs)
  from isCached_only_on_cache_hit [OF demo_encoder_clean, of ordered_table "Inr remote_blocks"
      range_request] hit
  have 1: "has_prop ''isCached'' (body (fst (getEncodedBlocks ?hit range_request)))"
    and 2: "get_prop ''isCached'' (body (fst (getEncodedBlocks ?hit range_request)))
       = Some (JBool True)"
    by blast+
  from isCached_only_on_cache_hit [OF demo_encoder_clean, of "[]" "Inr remote_blocks"
      range_request] miss api
  have 3: "fst (getEncodedBlocks ?miss range_request) =
       \<lparr>status = 200,
        body = series_to_js (applyDeltaEncoding
                 [\<lparr>epoch = 5, volume = 2\<rparr>, \<lparr>epoch = 10, volume = 0\<rparr>])\<rparr>"
    and 4: "\<not> has_prop ''isCached''
        (body (fst (getEncodedBlocks ?miss range_request)))"
    by blast+
  from 1 2 3 4 show ?thesis by blast
qed

lemma rowToSample_expected:
  "parseTimeToUnixEpoch env (created_at r) = Inr (t r) \<Longrightarrow>
   rowToSample env r = Inr (expected_row_sample t r)"
  by (simp add: rowToSample_def expected_row_sample_def split: option.splits)

lemma blockToSample_expected:
  "parseTimeToUnixEpoch env (record_createdAt r) = Inr (t r) \<Longrightarrow>
   blockToSample env r = Inr (expected_block_sample t r)"
  by (simp add: blockToSample_def expected_block_sample_def record_createdAt_def
      transaction_count_def split: option.splits)

lemma rows_to_samples:
  "\<forall>r\<in>set rows. parseTimeToUnixEpoch env (created_at r) = Inr (t r) \<Longrightarrow>
   mapE (rowToSample env) rows = Inr (map (expected_row_sample t) rows)"
  by (rule mapE_all_Inr) (simp add: rowToSample_expected)

lemma blocks_to_samples:
  "\<forall>r\<in>set records. parseTimeToUnixEpoch env (record_createdAt r) = Inr (t r) \<Longrightarrow>
   mapE (blockToSample env) records = Inr (map (expected_block_sample t) records)"
  by (rule mapE_all_Inr) (simp add: blockToSample_expected)

text \<open>
  Claim C3. When the cache read succeeds with at least one row (and the imported time
  conversion and encoder return normally), the response has status 200 and its body is
  \<^verbatim>\<open>{ isCached: true, ...encoded }\<close>, where \<open>encoded\<close> is the encoding of the rows
  turned into samples: the epoch is the conversion of \<^verbatim>\<open>created_at\<close>, the volume is the
  row's volume, \<open>0\<close> for \<^verbatim>\<open>NULL\<close>, and there are as many samples as rows. The body
  has the property \<^verbatim>\<open>isCached\<close>, equal to \<^verbatim>\<open>true\<close> unless the encoding brings a
  property of that name itself, and every property of the encoding.
\<close>
theorem cache_hit_envelope:
  assumes "fst (getDataFromCache env (req_start req) (req_end req)) = Inr rows"
    and "rows \<noteq> []"
    and "\<forall>r\<in>set rows. parseTimeToUnixEpoch env (created_at r) = Inr (t r)"
    and "deltaEncode env (map (expected_row_sample t) rows) = Inr enc"
  shows "fst (getEncodedBlocks env req) =
           \<lparr>status = 200, body = JObj (spread_into [(''isCached'', JBool True)] enc)\<rparr>
       \<and> has_prop ''isCached'' (body (fst (getEncodedBlocks env req)))
       \<and> (\<not> has_prop ''isCached'' enc \<longrightarrow>
            get_prop ''isCached'' (body (fst (getEncodedBlocks env req))) = Some (JBool True))
       \<and> (\<forall>k. has_prop k enc \<longrightarrow> has_prop k (body (fst (getEncodedBlocks env req))))
       \<and> length (map (expected_row_sample t) rows) = length rows"
proof -
  have "fst (cacheBranch env (req_start req) (req_end req)) =
     Inr (Some \<lparr>status = 200, body = JObj (spread_into [(''isCached'', JBool True)] enc)\<rparr>)"
    using assms(1,2) rows_to_samples [OF assms(3)] assms(4) by (rule cacheBranch_hit)
  from handler_hit(1) [OF this]
  show ?thesis
    by (simp add: has_prop_spread get_prop_spread_fresh expected_row_sample_def)
qed

theorem cache_hit_envelope_witness:
  "fst (getDataFromCache (demo_env ordered_table (Inr remote_blocks))
         (req_start range_request) (req_end range_request))
     = Inr [\<lparr>block_id = 1, row_volume = None,
             created_at = Some ''Thu, 01 Jan 1970 00:00:05 GMT''\<rparr>,
            \<lparr>block_id = 2, row_volume = Some 4,
             created_at = Some ''Thu, 01 Jan 1970 00:00:10 GMT''\<rparr>]
   \<and> fst (getEncodedBlocks (demo_env ordered_table (Inr remote_blocks)) range_request) =
       \<lparr>status = 200,
        body = JObj [(''isCached'', JBool True),
                     (''base'', JArr [JNum 5, JNum 0]),
                     (''deltas'', JArr [JArr [JNum 5, JNum 4]]),
                     (''length'', JNum 2)]\<rparr>
   \<and> get_prop ''isCached''
        (body (fst (getEncodedBlocks (demo_env ordered_table (Inr remote_blocks)) range_request)))
       = Some (JBool True)"
proof -
  let ?env = "demo_env ordered_table (Inr remote_blocks)"
  let ?rows = "[\<lparr>block_id = 1, row_volume = None,
             created_at = Some ''Thu, 01 Jan 1970 00:00:05 GMT''\<rparr>,
            \<lparr>block_id = 2, row_volume = Some 4,
             created_at = Some ''Thu, 01 Jan 1970 00:00:10 GMT''\<rparr>]"
  let ?t = "\<lambda>r. if block_id r = 1 then 5 else (10::int)"
  let ?enc = "JObj [(''base'', JArr [JNum 5, JNum 0]),
                     (''deltas'', JArr [JArr [JNum 5, JNum 4]]),
                     (''length'', JNum 2)]"
  have h1: "fst (getDataFromCache ?env (req_start range_request) (req_end range_request))
      = Inr ?rows"
    by (simp add: run_defs)
  have h2: "?rows \<noteq> []" by simp
  have h3: "\<forall>r\<in>set ?rows. parseTimeToUnixEpoch ?env (created_at r) = Inr (?t r)"
    by (simp add: run_defs)
  have h4: "deltaEncode ?env (map (expected_row_sample ?t) ?rows) = Inr ?enc"
    by (simp add: run_defs expected_row_sample_def)
  have c: "\<not> has_prop ''isCached'' ?enc"
    by (simp add: has_prop_def get_prop_def)
  have s: "spread_into [(''isCached'', JBool True)] ?enc =
      [(''isCached'', JBool True),
                     (''base'', JArr [JNum 5, JNum 0]),
                     (''deltas'', JArr [JArr [JNum 5, JNum 4]]),
                     (''length'', JNum 2)]"
    by (simp add: spread_into_def)
  from cache_hit_envelope [OF h1 h2 h3 h4]
  have r: "fst (getEncodedBlocks ?env range_request) =
       \<lparr>status = 200, body = JObj (spread_into [(''isCached'', JBool True)] ?enc)\<rparr>"
    and g: "\<not> has_prop ''isCached'' ?enc \<longrightarrow>
       get_prop ''isCached'' (body (fst (getEncodedBlocks ?env range_request)))
         = Some (JBool True)"
    by blast+
  from g c have "get_prop ''isCached'' (body (fst (getEncodedBlocks ?env range_request)))
         = Some (JBool True)"
    by blast
  with r s h1 show ?thesis
    by (simp only:)
qed

section \<open>The cache reader\<close>

lemma between_rows:
  "mset (sqlite_all table (SelectBetween lo hi))
     = filter_mset (\<lambda>r. lo \<le> block_id r \<and> block_id r \<le> hi) (mset table)"
  "sorted (map block_id (sqlite_all table (SelectBetween lo hi)))"
  by simp_all

lemma oldest_rows_sorted: "sorted (map block_id (sqlite_all table SelectOldest100))"
proof -
  have "sorted (take 100 (map block_id (sort_key block_id table)))"
    by (rule sorted_wrt_take) simp
  then show ?thesis
    by (simp add: take_map)
qed

lemma oldest_rows_rest:
  "mset table - mset (sqlite_all table SelectOldest100)
     = mset (drop 100 (sort_key block_id table))"
proof -
  have "mset table = mset (take 100 (sort_key block_id table) @ drop 100 (sort_key block_id table))"
    by simp
  then have "mset table = mset (sqlite_all table SelectOldest100)
      + mset (drop 100 (sort_key block_id table))"
    by (simp del: append_take_drop_id)
  then show ?thesis
    by simp
qed

lemma oldest_rows_sub: "mset (sqlite_all table SelectOldest100) \<subseteq># mset table"
proof -
  have "mset (take 100 (sort_key block_id table)) \<subseteq># mset (sort_key block_id table)"
    by (metis append_take_drop_id mset_append mset_subset_eq_add_left)
  then show ?thesis by simp
qed

lemma oldest_rows_least:
  assumes "r \<in># mset table - mset (sqlite_all table SelectOldest100)"
    and "r' \<in> set (sqlite_all table SelectOldest100)"
  shows "block_id r' \<le> block_id r"
proof -
  let ?xs = "sort_key block_id table"
  have "sorted (map block_id (take 100 ?xs @ drop 100 ?xs))"
    by simp
  then have "\<forall>a\<in>set (take 100 ?xs). \<forall>b\<in>set (drop 100 ?xs). block_id a \<le> block_id b"
    by (simp only: map_append sorted_append) auto
  moreover from assms(1) have "r \<in> set (drop 100 ?xs)"
    by (simp only: oldest_rows_rest set_mset_mset)
  moreover from assms(2) have "r' \<in> set (take 100 ?xs)"
    by simp
  ultimately show ?thesis by blast
qed

text \<open>
  Claim C5. Over a working store holding the rows of \<open>table\<close>: with both bounds valid,
  \<^verbatim>\<open>getDataFromCache\<close> returns exactly the rows with \<open>lo \<le> block_id \<le> hi\<close>, in
  ascending order of \<^verbatim>\<open>block_id\<close>; with a bound that is \<^verbatim>\<open>NaN\<close> it ignores both and
  returns, in ascending order of \<^verbatim>\<open>block_id\<close>, one hundred rows of the table (all of
  them when there are fewer) such that no row left out has a smaller \<^verbatim>\<open>block_id\<close>.
\<close>
theorem cache_reader_rows:
  assumes "db_all env = (\<lambda>q. Inr (sqlite_all table q))"
  shows "(\<exists>rows. fst (getDataFromCache env (Some lo) (Some hi)) = Inr rows
            \<and> mset rows = filter_mset (\<lambda>r. lo \<le> block_id r \<and> block_id r \<le> hi) (mset table)
            \<and> sorted (map block_id rows))
       \<and> (start = None \<or> end = None \<longrightarrow>
            (\<exists>rows. fst (getDataFromCache env start end) = Inr rows
               \<and> sorted (map block_id rows)
               \<and> length rows = min 100 (length table)
               \<and> mset rows \<subseteq># mset table
               \<and> (\<forall>r\<in>#mset table - mset rows. \<forall>r'\<in>set rows. block_id r' \<le> block_id r)))"
proof (intro conjI impI)
  show "\<exists>rows. fst (getDataFromCache env (Some lo) (Some hi)) = Inr rows
            \<and> mset rows = filter_mset (\<lambda>r. lo \<le> block_id r \<and> block_id r \<le> hi) (mset table)
            \<and> sorted (map block_id rows)"
    using assms between_rows [of table lo hi]
    by (simp add: getDataFromCache_def cacheQuery_def)
next
  assume "start = None \<or> end = None"
  then have q: "cacheQuery start end = SelectOldest100"
    by (auto simp: cacheQuery_def split: option.splits)
  have "length (sqlite_all table SelectOldest100) = min 100 (length table)"
    by (simp add: min.commute)
  with q assms oldest_rows_sorted [of table] oldest_rows_sub [of table]
    oldest_rows_least [of _ table]
  show "\<exists>rows. fst (getDataFromCache env start end) = Inr rows
               \<and> sorted (map block_id rows)
               \<and> length rows = min 100 (length table)
               \<and> mset rows \<subseteq># mset table
               \<and> (\<forall>r\<in>#mset table - mset rows. \<forall>r'\<in>set rows. block_id r' \<le> block_id r)"
    by (simp add: getDataFromCache_def del: sqlite_all.simps)
qed

theorem cache_reader_rows_witness:
  "db_all (demo_env ordered_table (Inr remote_blocks)) = (\<lambda>q. Inr (sqlite_all ordered_table q))
   \<and> (\<exists>rows. fst (getDataFromCache (demo_env ordered_table (Inr remote_blocks))
                 (Some 2) (Some 5)) = Inr rows
          \<and> mset rows = filter_mset (\<lambda>r. 2 \<le> block_id r \<and> block_id r \<le> 5) (mset ordered_table)
          \<and> sorted (map block_id rows))
   \<and> (\<exists>rows. fst (getDataFromCache (demo_env ordered_table (Inr remote_blocks))
                 None (Some 5)) = Inr rows
          \<and> length rows = 2 \<and> sorted (map block_id rows))"
proof -
  have h: "db_all (demo_env ordered_table (Inr remote_blocks))
      = (\<lambda>q. Inr (sqlite_all ordered_table q))"
    by (simp add: demo_env_def)
  have l: "min 100 (length ordered_table) = 2"
    by (simp add: ordered_table_def)
  from cache_reader_rows [OF h, of 2 5 None "Some 5"] h l
  show ?thesis by auto
qed

section \<open>The API client\<close>

lemma digit_char:
  assumes "d < 10"
  shows "is_digit (''0123456789'' ! d)" and "int (of_char (''0123456789'' ! d)) - 48 = int d"
proof -
  from assms have "d \<in> {0, 1, 2, 3, 4, 5, 6, 7, 8, 9}" by auto
  then show "is_digit (''0123456789'' ! d)" and "int (of_char (''0123456789'' ! d)) - 48 = int d"
    by (auto simp: is_digit_def)
qed

lemma digits_val_snoc: "digits_val (ds @ [c]) = 10 * digits_val ds + (int (of_char c) - 48)"
  by (simp add: digits_val_def)

lemma show_nat_props:
  "show_nat n \<noteq> [] \<and> (\<forall>c\<in>set (show_nat n). is_digit c) \<and> digits_val (show_nat n) = int n"
proof (induction n rule: show_nat.induct)
  case (1 n)
  show ?case
  proof (cases "n < 10")
    case True
    then have "show_nat n = [''0123456789'' ! n]"
      by (subst show_nat.simps) simp
    with digit_char [OF True] show ?thesis
      by (simp add: digits_val_def)
  next
    case False
    then have s: "show_nat n = show_nat (n div 10) @ [''0123456789'' ! (n mod 10)]"
      by (subst show_nat.simps) simp
    have m: "n mod 10 < 10" by simp
    from False "1.IH" digit_char [OF m] show ?thesis
      by (simp add: s digits_val_snoc del: mod_less_divisor) presburger
  qed
qed

lemma digit_not_ws:
  assumes "is_digit c"
  shows "\<not> is_ws c" and "c \<noteq> CHR ''-''" and "c \<noteq> CHR ''+''"
  using assms by (auto simp: is_digit_def is_ws_def)

lemma parseInt_digits:
  assumes "ds \<noteq> []" "\<forall>c\<in>set ds. is_digit c"
  shows "parseInt (Some ds) = Some (digits_val ds)"
proof -
  from assms have c: "is_digit (hd ds)"
    by simp
  from assms(2) have t: "takeWhile is_digit ds = ds"
    by (simp add: takeWhile_eq_all_conv)
  from assms(1) digit_not_ws(1) [OF c] have d: "dropWhile is_ws ds = ds"
    by (cases ds) simp_all
  from assms(1) digit_not_ws(2,3) [OF c] show ?thesis
    by (simp add: parseInt_def Let_def d t)
qed

lemma parseInt_minus_digits:
  assumes "ds \<noteq> []" "\<forall>c\<in>set ds. is_digit c"
  shows "parseInt (Some (CHR ''-'' # ds)) = Some (- digits_val ds)"
proof -
  from assms(2) have t: "takeWhile is_digit ds = ds"
    by (simp add: takeWhile_eq_all_conv)
  have d: "\<not> is_ws CHR ''-''"
    by (simp add: is_ws_def)
  from assms(1) show ?thesis
    by (simp add: parseInt_def Let_def d t)
qed

lemma parseInt_show_int: "parseInt (Some (show_int i)) = Some i"
proof (cases "i < 0")
  case True
  from show_nat_props [of "nat (- i)"]
  have "parseInt (Some (CHR ''-'' # show_nat (nat (- i)))) = Some (- digits_val (show_nat (nat (- i))))"
    by (intro parseInt_minus_digits) simp_all
  with True show_nat_props [of "nat (- i)"] show ?thesis
    by (simp add: show_int_def)
next
  case False
  from show_nat_props [of "nat i"]
  have "parseInt (Some (show_nat (nat i))) = Some (digits_val (show_nat (nat i)))"
    by (intro parseInt_digits) simp_all
  with False show_nat_props [of "nat i"] show ?thesis
    by (simp add: show_int_def)
qed

lemma fst_getDataFromApi_array:
  "axios_request env (apiUrl (EXPLORER_BASE_URL env) s e) = Inr (DataArray records) \<Longrightarrow>
   fst (getDataFromApi env s e) = mapE (blockToSample env) records"
  by (simp add: getDataFromApi_def Let_def)

text \<open>
  Claim C6, for bounds up to \<^verbatim>\<open>Number.MAX_SAFE_INTEGER\<close> in magnitude.
  \<^verbatim>\<open>getDataFromApi\<close> makes one request. With both bounds valid its URL is the block
  range \<open>lo\<close> to \<open>hi\<close> in decimal (which \<^verbatim>\<open>parseInt\<close> reads back as \<open>lo\<close> and \<open>hi\<close>);
  with a bound that is \<^verbatim>\<open>NaN\<close> it is the fixed range 1 to 100; it always names a
  range. When the remote answers with an array and the time conversion returns normally,
  each record becomes the sample whose epoch is the conversion of \<^verbatim>\<open>createdAt\<close> and
  whose volume is the number of its transactions, \<open>0\<close> without a transaction list.
\<close>

theorem api_client_request_and_samples:
  assumes "safe_bound start" and "safe_bound end" and "safe_integer lo" and "safe_integer hi"
  shows
  "snd (getDataFromApi env start end) = [AxiosRequest (apiUrl (EXPLORER_BASE_URL env) start end)]
   \<and> apiUrl baseUrl (Some lo) (Some hi)
       = baseUrl @ ''/v1/blocks/'' @ show_int lo @ ''/'' @ show_int hi
   \<and> parseInt (Some (show_int lo)) = Some lo \<and> parseInt (Some (show_int hi)) = Some hi
   \<and> (start = None \<or> end = None \<longrightarrow> apiUrl baseUrl start end = baseUrl @ ''/v1/blocks/1/100'')
   \<and> (\<exists>a b. apiUrl baseUrl start end = baseUrl @ ''/v1/blocks/'' @ a @ ''/'' @ b)
   \<and> (axios_request env (apiUrl (EXPLORER_BASE_URL env) start end) = Inr (DataArray records)
        \<and> (\<forall>r\<in>set records. parseTimeToUnixEpoch env (record_createdAt r) = Inr (t r))
      \<longrightarrow> fst (getDataFromApi env start end) = Inr (map (expected_block_sample t) records))"
proof -
  have "start = None \<or> end = None \<longrightarrow> apiUrl baseUrl start end = baseUrl @ ''/v1/blocks/1/100''"
    by (auto simp: apiUrl_def split: option.splits)
  moreover have "apiUrl baseUrl (Some lo) (Some hi)
       = baseUrl @ ''/v1/blocks/'' @ show_int lo @ ''/'' @ show_int hi"
    by (simp add: apiUrl_def)
  moreover have "\<exists>a b. apiUrl baseUrl start end = baseUrl @ ''/v1/blocks/'' @ a @ ''/'' @ b"
  proof (cases "start = None \<or> end = None")
    case True
    then have "apiUrl baseUrl start end = baseUrl @ ''/v1/blocks/'' @ ''1'' @ ''/'' @ ''100''"
      by (auto simp: apiUrl_def split: option.splits)
    then show ?thesis by blast
  next
    case False
    then obtain s e where "start = Some s" "end = Some e" by auto
    then have "apiUrl baseUrl start end
        = baseUrl @ ''/v1/blocks/'' @ show_int s @ ''/'' @ show_int e"
      by (simp add: apiUrl_def)
    then show ?thesis by blast
  qed
  ultimately show ?thesis
    by (simp add: snd_getDataFromApi parseInt_show_int fst_getDataFromApi_array
        blocks_to_samples)
qed

theorem api_client_request_and_samples_witness:
  "safe_bound (Some 3) \<and> safe_bound (Some 17) \<and> safe_bound None
   \<and> safe_integer 3 \<and> safe_integer 17
   \<and> snd (getDataFromApi (demo_env [] (Inr remote_blocks)) (Some 3) (Some 17))
     = [AxiosRequest ''http://explorer/v1/blocks/3/17'']
   \<and> snd (getDataFromApi (demo_env [] (Inr remote_blocks)) (Some 3) None)
     = [AxiosRequest ''http://explorer/v1/blocks/1/100'']
   \<and> fst (getDataFromApi (demo_env [] (Inr remote_blocks)) (Some 3) None)
     = Inr [\<lparr>epoch = 5, volume = 2\<rparr>, \<lparr>epoch = 10, volume = 0\<rparr>]"
proof -
  let ?env = "demo_env [] (Inr remote_blocks)"
  let ?t = "\<lambda>r. if r = Some \<lparr>createdAt = Some ''Thu, 01 Jan 1970 00:00:10 GMT'',
                                transactions = None\<rparr> then 10 else (5::int)"
  let ?records = "[Some \<lparr>createdAt = Some ''Thu, 01 Jan 1970 00:00:05 GMT'',
              transactions = Some [\<lparr>cmd = ''SET'', key = ''k'', val = ''v''\<rparr>,
                                   \<lparr>cmd = ''SET'', key = ''l'', val = ''w''\<rparr>]\<rparr>,
        Some \<lparr>createdAt = Some ''Thu, 01 Jan 1970 00:00:10 GMT'', transactions = None\<rparr>]"
  have b: "EXPLORER_BASE_URL ?env = ''http://explorer''"
    by (simp add: demo_env_def)
  have s: "show_int 3 = ''3''" "show_int 17 = ''17''"
    by (simp_all add: show_int_def show_nat.simps)
  have a: "axios_request ?env (apiUrl (EXPLORER_BASE_URL ?env) (Some 3) None)
      = Inr (DataArray ?records)"
    by (simp add: demo_env_def remote_blocks_def)
  have p: "\<forall>r\<in>set ?records. parseTimeToUnixEpoch ?env (record_createdAt r) = Inr (?t r)"
    by (simp add: demo_env_def epoch_table_def record_createdAt_def)
  have m: "map (expected_block_sample ?t) ?records
      = [\<lparr>epoch = 5, volume = 2\<rparr>, \<lparr>epoch = 10, volume = 0\<rparr>]"
    by (simp add: expected_block_sample_def transaction_count_def)
  have i: "safe_integer 3" "safe_integer 17"
    by (simp_all add: safe_integer_def MAX_SAFE_INTEGER_def)
  then have o: "safe_bound (Some 3)" "safe_bound (Some 17)" "safe_bound None"
    by (simp_all add: safe_bound_def)
  note v = api_client_request_and_samples [OF o(1) o(2) i,
      of ?env "''http://explorer''" ?records ?t]
  note w = api_client_request_and_samples [OF o(1) o(3) i,
      of ?env "''http://explorer''" ?records ?t]
  have "apiUrl ''http://explorer'' (Some 3) (Some 17) = ''http://explorer/v1/blocks/3/17''"
    using v [THEN conjunct2, THEN conjunct1] by (simp add: s)
  with v [THEN conjunct1]
  have 1: "snd (getDataFromApi ?env (Some 3) (Some 17))
     = [AxiosRequest ''http://explorer/v1/blocks/3/17'']"
    by (simp only: b)
  have "apiUrl ''http://explorer'' (Some 3) None = ''http://explorer/v1/blocks/1/100''"
    using w [THEN conjunct2, THEN conjunct2, THEN conjunct2, THEN conjunct2, THEN conjunct1]
    by simp
  with w [THEN conjunct1]
  have 2: "snd (getDataFromApi ?env (Some 3) None)
     = [AxiosRequest ''http://explorer/v1/blocks/1/100'']"
    by (simp only: b)
  have 3: "fst (getDataFromApi ?env (Some 3) None) = Inr (map (expected_block_sample ?t) ?records)"
    using w [THEN conjunct2, THEN conjunct2, THEN conjunct2, THEN conjunct2, THEN conjunct2,
        THEN conjunct2]
      a p
    by (rule mp [OF _ conjI])
  from i o 1 2 3 m show ?thesis
    by (simp only:)
qed

section \<open>The order of the samples\<close>

lemma epochs_of_rows: "map epoch (map (expected_row_sample t) rows) = map t rows"
  by (simp add: expected_row_sample_def comp_def)

lemma epochs_of_blocks: "map epoch (map (expected_block_sample t) records) = map t records"
  by (simp add: expected_block_sample_def comp_def)

lemma apiTry_array:
  "axios_request env (apiUrl (EXPLORER_BASE_URL env) s e) = Inr (DataArray records) \<Longrightarrow>
   mapE (blockToSample env) records = Inr ss \<Longrightarrow>
   fst (apiTry env s e) = deltaEncode env ss"
  by (simp add: apiTry_def split_beta fst_getDataFromApi_array)

text \<open>
  The handler does not order samples by epoch. Here the store holds block 1 created at
  second 10 and block 2 created at second 5; the cache hit encodes them in the order of
  \<^verbatim>\<open>block_id\<close>, and the series decodes to epochs 10, 5.
\<close>
theorem epoch_order_counterexample:
  "fst (getEncodedBlocks (demo_env unordered_table (Inr remote_blocks)) range_request) =
     \<lparr>status = 200,
      body = JObj (spread_into [(''isCached'', JBool True)]
               (series_to_js (applyDeltaEncoding
                  [\<lparr>epoch = 10, volume = 0\<rparr>, \<lparr>epoch = 5, volume = 4\<rparr>])))\<rparr>
   \<and> decodeDeltaEncoding (applyDeltaEncoding
         [\<lparr>epoch = 10, volume = 0\<rparr>, \<lparr>epoch = 5, volume = 4\<rparr>])
       = Inr [\<lparr>epoch = 10, volume = 0\<rparr>, \<lparr>epoch = 5, volume = 4\<rparr>]
   \<and> \<not> sorted (map epoch [\<lparr>epoch = 10, volume = 0\<rparr>, \<lparr>epoch = 5, volume = 4\<rparr>])"
  by (simp add: run_defs decodeDeltaEncoding_def)

text \<open>
  Claim C8, as the code has it. A successful response carries the encoding of the samples
  in the order of their source: the rows as the store returned them (for
  \<^verbatim>\<open>getDataFromCache\<close>, ascending \<^verbatim>\<open>block_id\<close>) on the cache-hit path, the records of
  the remote array on the API path. The epochs are the converted timestamps in that
  order; they are non-decreasing exactly when those are.
\<close>
theorem samples_follow_source_order:
  "(fst (getDataFromCache env (req_start req) (req_end req)) = Inr rows \<and> rows \<noteq> []
      \<and> (\<forall>r\<in>set rows. parseTimeToUnixEpoch env (created_at r) = Inr (t r))
      \<and> deltaEncode env (map (expected_row_sample t) rows) = Inr enc
    \<longrightarrow> fst (getEncodedBlocks env req) =
          \<lparr>status = 200, body = JObj (spread_into [(''isCached'', JBool True)] enc)\<rparr>
        \<and> map epoch (map (expected_row_sample t) rows) = map t rows
        \<and> (sorted (map epoch (map (expected_row_sample t) rows)) \<longleftrightarrow> sorted (map t rows)))
   \<and> ((fst (cacheBranch env (req_start req) (req_end req)) = Inl cacheError
         \<or> fst (cacheBranch env (req_start req) (req_end req)) = Inr None)
      \<and> axios_request env (apiUrl (EXPLORER_BASE_URL env) (req_start req) (req_end req))
           = Inr (DataArray records)
      \<and> (\<forall>r\<in>set records. parseTimeToUnixEpoch env (record_createdAt r) = Inr (t' r))
      \<and> deltaEncode env (map (expected_block_sample t') records) = Inr enc'
    \<longrightarrow> fst (getEncodedBlocks env req) = \<lparr>status = 200, body = enc'\<rparr>
        \<and> map epoch (map (expected_block_sample t') records) = map t' records
        \<and> (sorted (map epoch (map (expected_block_sample t') records))
             \<longleftrightarrow> sorted (map t' records)))"
proof (intro conjI impI; elim conjE)
  assume h: "fst (getDataFromCache env (req_start req) (req_end req)) = Inr rows" "rows \<noteq> []"
    and p: "\<forall>r\<in>set rows. parseTimeToUnixEpoch env (created_at r) = Inr (t r)"
    and d: "deltaEncode env (map (expected_row_sample t) rows) = Inr enc"
  from h rows_to_samples [OF p] d
  have "fst (cacheBranch env (req_start req) (req_end req)) =
     Inr (Some \<lparr>status = 200, body = JObj (spread_into [(''isCached'', JBool True)] enc)\<rparr>)"
    by (rule cacheBranch_hit)
  then show "fst (getEncodedBlocks env req) =
          \<lparr>status = 200, body = JObj (spread_into [(''isCached'', JBool True)] enc)\<rparr>"
    by (rule handler_hit(1))
next
  assume c: "fst (cacheBranch env (req_start req) (req_end req)) = Inl cacheError
         \<or> fst (cacheBranch env (req_start req) (req_end req)) = Inr None"
    and a: "axios_request env (apiUrl (EXPLORER_BASE_URL env) (req_start req) (req_end req))
           = Inr (DataArray records)"
    and p: "\<forall>r\<in>set records. parseTimeToUnixEpoch env (record_createdAt r) = Inr (t' r)"
    and d: "deltaEncode env (map (expected_block_sample t') records) = Inr enc'"
  from c have n: "\<nexists>sent. fst (cacheBranch env (req_start req) (req_end req)) = Inr (Some sent)"
    by auto
  from apiTry_array [OF a blocks_to_samples [OF p]] d
  have "fst (apiTry env (req_start req) (req_end req)) = Inr enc'"
    by simp
  then show "fst (getEncodedBlocks env req) = \<lparr>status = 200, body = enc'\<rparr>"
    by (simp add: handler_fallback(1) [OF n] fst_apiBranch_ok)
qed (simp_all only: epochs_of_rows epochs_of_blocks)

theorem samples_follow_source_order_witness:
  "fst (getEncodedBlocks (demo_env ordered_table (Inr remote_blocks)) range_request) =
     \<lparr>status = 200,
      body = JObj (spread_into [(''isCached'', JBool True)]
               (series_to_js (applyDeltaEncoding
                  [\<lparr>epoch = 5, volume = 0\<rparr>, \<lparr>epoch = 10, volume = 4\<rparr>])))\<rparr>
   \<and> sorted (map epoch [\<lparr>epoch = 5, volume = 0\<rparr>, \<lparr>epoch = 10, volume = 4\<rparr>])
   \<and> fst (getEncodedBlocks (demo_env [] (Inr remote_blocks)) range_request) =
     \<lparr>status = 200,
      body = series_to_js (applyDeltaEncoding
                  [\<lparr>epoch = 5, volume = 2\<rparr>, \<lparr>epoch = 10, volume = 0\<rparr>])\<rparr>
   \<and> sorted (map epoch [\<lparr>epoch = 5, volume = 2\<rparr>, \<lparr>epoch = 10, volume = 0\<rparr>])"
proof -
  let ?hit = "demo_env ordered_table (Inr remote_blocks)"
  let ?miss = "demo_env [] (Inr remote_blocks)"
  let ?rows = "[\<lparr>block_id = 1, row_volume = None,
             created_at = Some ''Thu, 01 Jan 1970 00:00:05 GMT''\<rparr>,
            \<lparr>block_id = 2, row_volume = Some 4,
             created_at = Some ''Thu, 01 Jan 1970 00:00:10 GMT''\<rparr>]"
  let ?t = "\<lambda>r. if block_id r = 1 then 5 else (10::int)"
  let ?t' = "\<lambda>r. if r = Some \<lparr>createdAt = Some ''Thu, 01 Jan 1970 00:00:10 GMT'',
                                transactions = None\<rparr> then 10 else (5::int)"
  let ?records = "[Some \<lparr>createdAt = Some ''Thu, 01 Jan 1970 00:00:05 GMT'',
              transactions = Some [\<lparr>cmd = ''SET'', key = ''k'', val = ''v''\<rparr>,
                                   \<lparr>cmd = ''SET'', key = ''l'', val = ''w''\<rparr>]\<rparr>,
        Some \<lparr>createdAt = Some ''Thu, 01 Jan 1970 00:00:10 GMT'', transactions = None\<rparr>]"
  let ?ss = "[\<lparr>epoch = 5, volume = 0\<rparr>, \<lparr>epoch = 10, volume = 4\<rparr>]"
  let ?ss' = "[\<lparr>epoch = 5, volume = 2\<rparr>, \<lparr>epoch = 10, volume = 0\<rparr>]"
  have m: "map (expected_row_sample ?t) ?rows = ?ss"
    by (simp add: expected_row_sample_def)
  have m': "map (expected_block_sample ?t') ?records = ?ss'"
    by (simp add: expected_block_sample_def transaction_count_def)
  have h1: "fst (getDataFromCache ?hit (req_start range_request) (req_end range_request))
      = Inr ?rows"
    by (simp add: run_defs)
  have h2: "?rows \<noteq> []" by simp
  have h3: "\<forall>r\<in>set ?rows. parseTimeToUnixEpoch ?hit (created_at r) = Inr (?t r)"
    by (simp add: run_defs)
  have h4: "deltaEncode ?hit (map (expected_row_sample ?t) ?rows)
      = Inr (series_to_js (applyDeltaEncoding ?ss))"
    unfolding m by (simp add: demo_env_def)
  have g1: "fst (cacheBranch ?miss (req_start range_request) (req_end range_request)) = Inr None"
    by (simp add: run_defs)
  have g2: "axios_request ?miss
      (apiUrl (EXPLORER_BASE_URL ?miss) (req_start range_request) (req_end range_request))
        = Inr (DataArray ?records)"
    by (simp add: demo_env_def remote_blocks_def)
  have g3: "\<forall>r\<in>set ?records. parseTimeToUnixEpoch ?miss (record_createdAt r) = Inr (?t' r)"
    by (simp add: demo_env_def epoch_table_def record_createdAt_def)
  have g4: "deltaEncode ?miss (map (expected_block_sample ?t') ?records)
      = Inr (series_to_js (applyDeltaEncoding ?ss'))"
    unfolding m' by (simp add: demo_env_def)
  note hit = samples_follow_source_order [of ?hit range_request ?rows ?t
      "series_to_js (applyDeltaEncoding ?ss)" "Error ''unused''" ?records ?t'
      "series_to_js (applyDeltaEncoding ?ss')", THEN conjunct1, THEN mp,
      OF conjI [OF h1 conjI [OF h2 conjI [OF h3 h4]]]]
  note miss = samples_follow_source_order [of ?miss range_request ?rows ?t
      "series_to_js (applyDeltaEncoding ?ss)" "Error ''unused''" ?records ?t'
      "series_to_js (applyDeltaEncoding ?ss')", THEN conjunct2, THEN mp,
      OF conjI [OF disjI2 [OF g1] conjI [OF g2 conjI [OF g3 g4]]]]
  have s: "sorted (map epoch ?ss)" "sorted (map epoch ?ss')"
    by simp_all
  from hit [THEN conjunct1] miss [THEN conjunct1] s show ?thesis
    by (simp only:) 
qed

end
